theory Spec2Isabelle
  imports Complex_Main
begin

section \<open>Values, errors and effects\<close>

text \<open>
  The fixation model returns a float64. Only its special values matter to the control flow
  of the walkers, so a float is a real number or one of the three special values.
  In \<open>mc_step\<close> the arithmetic on finite values is exact; \<open>mc_step_in\<close> is the same pass
  with the arithmetic left open, for what depends on the rounding of float64.
\<close>

datatype fnum = Fin real | PInf | NInf | NaN

definition float_max :: real where
  "float_max = (2 - 1 / 2 ^ 52) * 2 ^ 1023"

text \<open>\<open>np.nan_to_num\<close>: NaN becomes 0, the infinities become the largest finite floats.\<close>

fun nan_to_num :: "fnum \<Rightarrow> real" where
  "nan_to_num (Fin x) = x"
| "nan_to_num NaN = 0"
| "nan_to_num PInf = float_max"
| "nan_to_num NInf = - float_max"

text \<open>\<open>u < p\<close> for a finite \<open>u\<close> and a float \<open>p\<close>: every comparison with NaN is false.\<close>

fun float_less :: "real \<Rightarrow> fnum \<Rightarrow> bool" where
  "float_less u (Fin p) = (u < p)"
| "float_less u PInf = True"
| "float_less u NInf = False"
| "float_less u NaN = False"

text \<open>
  An exception message is a concatenation of literals and of \<open>str(visited)\<close>; the
  fragments are kept apart so that the trajectory inside a message stays visible.
\<close>

datatype 'g frag = Lit string | Str "'g list"

datatype 'g error =
    EvolverError "'g frag list"
  | KeyError 'g
  | IndexError
  | ValueError 'g

datatype 'g exit = Return "'g list" | Raise "'g error"

text \<open>The calls a walker makes to its collaborators, in the order it makes them.\<close>

datatype 'g call =
    GetNeighbors 'g
  | GetForwardNeighbors 'g 'g
  | ModelCall 'g 'g
  | RandomUniform
  | RandomChoice
  | RandomRand

text \<open>The genotype-phenotype map: \<open>gpm.map("genotypes", "phenotypes")\<close> and \<open>gpm.mutations\<close>.\<close>

record ('g, 'p, 'm) gpm =
  mapping_p :: "'g \<rightharpoonup> 'p"
  mutations :: 'm

text \<open>
  The imported collaborators: the two neighbor enumerators of \<open>.tools\<close> and the three
  draws of \<open>np.random\<close>, each draw taking the generator's state and returning the new one.
\<close>

record ('g, 'm, 'r) env =
  get_neighbors :: "'g \<Rightarrow> 'm \<Rightarrow> 'g list"
  get_forward_neighbors :: "'g \<Rightarrow> 'g \<Rightarrow> 'm \<Rightarrow> 'g list"
  random_uniform :: "real \<Rightarrow> real \<Rightarrow> 'r \<Rightarrow> real \<times> 'r"
  random_choice :: "'g list \<Rightarrow> 'r \<Rightarrow> 'g \<times> 'r"
  random_rand :: "'r \<Rightarrow> real \<times> 'r"

record ('g, 'r) walk =
  visited :: "'g list"
  rng :: 'r
  calls :: "'g call list"

record ('g, 'r) mc_state = "('g, 'r) walk" +
  nmoves :: int

record ('g, 'r) mmc_state = "('g, 'r) walk" +
  fails :: int

section \<open>monte\_carlo\<close>

definition stuck_msg :: string where
  "stuck_msg = ''Monte Carlo simulation got stuck; neighbors are deleterious. \<newline>Current progress : ''"

definition max_msg :: string where
  "max_msg = ''Monte Carlo exceeded max number of moves.''"

text \<open>\<open>neighbors_method(*nb_args)\<close>: the forward enumerator is given \<open>source\<close> first.\<close>

definition neighbors_of ::
  "('g, 'm, 'r) env \<Rightarrow> ('g, 'p, 'm) gpm \<Rightarrow> 'g \<Rightarrow> bool \<Rightarrow> 'g \<Rightarrow> 'g list" where
  "neighbors_of E gpm source forward current =
     (if forward then get_forward_neighbors E source current (mutations gpm)
      else get_neighbors E current (mutations gpm))"

definition neighbors_call :: "'g \<Rightarrow> bool \<Rightarrow> 'g \<Rightarrow> 'g call" where
  "neighbors_call source forward current =
     (if forward then GetForwardNeighbors source current else GetNeighbors current)"

text \<open>
  \<open>[model(fitness0, mapping_p[n], **kwargs) for n in neighbors]\<close>: a neighbor missing from
  the mapping raises KeyError before the model is called on it.
\<close>

fun model_outputs ::
  "('g \<rightharpoonup> 'p) \<Rightarrow> ('p \<Rightarrow> 'p \<Rightarrow> fnum) \<Rightarrow> 'p \<Rightarrow> 'g list \<Rightarrow> 'g error + fnum list" where
  "model_outputs m model fitness0 [] = Inr []"
| "model_outputs m model fitness0 (n # ns) =
     (case m n of
        None \<Rightarrow> Inl (KeyError n)
      | Some f1 \<Rightarrow>
          (case model_outputs m model fitness0 ns of
             Inl e \<Rightarrow> Inl e
           | Inr outs \<Rightarrow> Inr (model fitness0 f1 # outs)))"

definition model_calls :: "('g \<rightharpoonup> 'p) \<Rightarrow> 'g \<Rightarrow> 'g list \<Rightarrow> 'g call list" where
  "model_calls m current neighbors =
     map (ModelCall current) (takeWhile (\<lambda>n. m n \<noteq> None) neighbors)"

definition fixations :: "fnum list \<Rightarrow> real list" where
  "fixations outs = map nan_to_num outs"

definition trans_prob :: "'g list \<Rightarrow> real list \<Rightarrow> real list" where
  "trans_prob neighbors fix = map (\<lambda>x. x / real (length neighbors + 1)) fix"

definition self_prob :: "real list \<Rightarrow> real" where
  "self_prob tp = 1 - sum_list tp"

definition cumulative_dist :: "real list \<Rightarrow> real list" where
  "cumulative_dist probs = map (\<lambda>i. sum_list (take (i + 1) probs) * 100) [0..<length probs]"

text \<open>\<open>moves[cumulative_dist >= mc_number][0]\<close>: IndexError when the mask selects nothing.\<close>

definition select_move :: "'g list \<Rightarrow> real list \<Rightarrow> real \<Rightarrow> 'g option" where
  "select_move moves cd mc_number =
     (case filter (\<lambda>(m, c). mc_number \<le> c) (zip moves cd) of
        [] \<Rightarrow> None
      | (m, c) # rest \<Rightarrow> Some m)"

text \<open>
  One pass through the body of the loop. The result is \<open>None\<close> when the loop goes on, and
  the exit taken otherwise; the state returned holds the calls made up to that point.
\<close>

definition mc_step ::
  "('g, 'm, 'r) env \<Rightarrow> ('g, 'p, 'm) gpm \<Rightarrow> 'g \<Rightarrow> ('p \<Rightarrow> 'p \<Rightarrow> fnum) \<Rightarrow> bool \<Rightarrow> bool \<Rightarrow>
   ('g, 'r) mc_state \<Rightarrow> 'g exit option \<times> ('g, 'r) mc_state" where
  "mc_step E gpm source model forward return_bad st =
     (let current = last (visited st) in
      case mapping_p gpm current of
        None \<Rightarrow> (Some (Raise (KeyError current)), st)
      | Some fitness0 \<Rightarrow>
          let neighbors = neighbors_of E gpm source forward current;
              moves = neighbors @ [current];
              st1 = st\<lparr>calls := calls st @ [neighbors_call source forward current]
                                 @ model_calls (mapping_p gpm) current neighbors\<rparr>
          in case model_outputs (mapping_p gpm) model fitness0 neighbors of
               Inl e \<Rightarrow> (Some (Raise e), st1)
             | Inr outs \<Rightarrow>
                 let tp = trans_prob neighbors (fixations outs);
                     sp = self_prob tp;
                     probs = tp @ [sp]
                 in if sp = 1 then
                      (if return_bad then (Some (Return (visited st)), st1)
                       else (Some (Raise (EvolverError [Lit stuck_msg, Str (visited st)])), st1))
                    else
                      let cd = cumulative_dist probs;
                          draw = random_uniform E 0 100 (rng st1);
                          mc_number = fst draw;
                          st2 = st1\<lparr>rng := snd draw\<rparr>;
                          st3 = st2\<lparr>calls := calls st1 @ [RandomUniform]\<rparr>
                      in case select_move moves cd mc_number of
                           None \<Rightarrow> (Some (Raise IndexError), st3)
                         | Some new \<Rightarrow>
                             (None, st3\<lparr>visited := visited st @ [new], nmoves := nmoves st + 1\<rparr>))"

text \<open>
  The while loop and the check after it. \<open>visited[-1]\<close> raises IndexError on an empty
  tuple. The loop runs at most \<open>max_moves + 1\<close> times, since every pass that goes on
  adds one to \<open>nmoves\<close>.
\<close>

function mc_loop ::
  "('g, 'm, 'r) env \<Rightarrow> ('g, 'p, 'm) gpm \<Rightarrow> 'g \<Rightarrow> 'g \<Rightarrow> ('p \<Rightarrow> 'p \<Rightarrow> fnum) \<Rightarrow> int \<Rightarrow> bool \<Rightarrow> bool \<Rightarrow>
   ('g, 'r) mc_state \<Rightarrow> 'g exit \<times> ('g, 'r) mc_state" where
  "mc_loop E gpm source target model max_moves forward return_bad st =
     (if visited st = [] then (Raise IndexError, st)
      else if last (visited st) \<noteq> target \<and> nmoves st \<le> max_moves then
        (case mc_step E gpm source model forward return_bad st of
           (Some ex, st') \<Rightarrow> (ex, st')
         | (None, st') \<Rightarrow> mc_loop E gpm source target model max_moves forward return_bad st')
      else if nmoves st > max_moves then (Raise (EvolverError [Lit max_msg]), st)
      else (Return (visited st), st))"
  by pat_completeness auto
termination
  by (relation "measure (\<lambda>(E, gpm, source, target, model, max_moves, forward, return_bad, st).
        nat (max_moves + 1 - nmoves st))")
     (auto simp: mc_step_def Let_def split: option.splits sum.splits if_splits)

definition monte_carlo ::
  "('g, 'm, 'r) env \<Rightarrow> ('g, 'p, 'm) gpm \<Rightarrow> 'g \<Rightarrow> 'g \<Rightarrow> ('p \<Rightarrow> 'p \<Rightarrow> fnum) \<Rightarrow> int \<Rightarrow> bool \<Rightarrow> bool \<Rightarrow>
   'r \<Rightarrow> 'g exit \<times> ('g, 'r) mc_state" where
  "monte_carlo E gpm source target model max_moves forward return_bad r =
     mc_loop E gpm source target model max_moves forward return_bad
       \<lparr>visited = [source], rng = r, calls = [], nmoves = 0\<rparr>"

section \<open>monte\_carlo\_metropolis\_criterion\<close>

text \<open>
  One pass through the body of the loop: a proposal is drawn from
  \<open>get_neighbors(current, gpm.mutations) + [current]\<close>, and accepted when
  \<open>mc_number < mc_fixation\<close>. The model's output is compared as it is: a NaN is rejected.
\<close>

definition mmc_moves :: "('g, 'm, 'r) env \<Rightarrow> ('g, 'p, 'm) gpm \<Rightarrow> 'g \<Rightarrow> 'g list" where
  "mmc_moves E gpm current = get_neighbors E current (mutations gpm) @ [current]"



definition mmc_step ::
  "('g, 'm, 'r) env \<Rightarrow> ('g, 'p, 'm) gpm \<Rightarrow> ('p \<Rightarrow> 'p \<Rightarrow> fnum) \<Rightarrow>
   ('g, 'r) mmc_state \<Rightarrow> 'g exit option \<times> ('g, 'r) mmc_state" where
  "mmc_step E gpm model st =
     (let current = last (visited st) in
      case mapping_p gpm current of
        None \<Rightarrow> (Some (Raise (KeyError current)), st)
      | Some fitness0 \<Rightarrow>
          let moves = mmc_moves E gpm current;
              choice = random_choice E moves (rng st);
              mc_choice = fst choice;
              st1 = st\<lparr>rng := snd choice\<rparr>;
              st2 = st1\<lparr>calls := calls st @ [GetNeighbors current, RandomChoice]\<rparr>
          in case mapping_p gpm mc_choice of
               None \<Rightarrow> (Some (Raise (KeyError mc_choice)), st2)
             | Some f1 \<Rightarrow>
                 let mc_fixation = model fitness0 f1;
                     draw = random_rand E (rng st2);
                     mc_number = fst draw;
                     st3 = st2\<lparr>rng := snd draw\<rparr>;
                     st4 = st3\<lparr>calls := calls st2 @ [ModelCall current mc_choice, RandomRand]\<rparr>
                 in if float_less mc_number mc_fixation
                    then (None, st4\<lparr>visited := visited st @ [mc_choice]\<rparr>)
                    else (None, st4\<lparr>visited := visited st @ [current], fails := fails st + 1\<rparr>))"

text \<open>
  The while loop and the check after it. An accepted move leaves \<open>fails\<close> as it is, so
  nothing bounds the number of passes: the loop runs on fuel, one unit for each pass, and
  \<open>None\<close> is a run that has not ended when the fuel is spent.
\<close>

fun mmc_loop ::
  "nat \<Rightarrow> ('g, 'm, 'r) env \<Rightarrow> ('g, 'p, 'm) gpm \<Rightarrow> 'g \<Rightarrow> ('p \<Rightarrow> 'p \<Rightarrow> fnum) \<Rightarrow> int \<Rightarrow>
   ('g, 'r) mmc_state \<Rightarrow> ('g exit \<times> ('g, 'r) mmc_state) option" where
  "mmc_loop fuel E gpm target model max_fails st =
     (if visited st = [] then Some (Raise IndexError, st)
      else if last (visited st) \<noteq> target \<and> fails st \<le> max_fails then
        (case fuel of
           0 \<Rightarrow> None
         | Suc k \<Rightarrow>
             (case mmc_step E gpm model st of
                (Some ex, st') \<Rightarrow> Some (ex, st')
              | (None, st') \<Rightarrow> mmc_loop k E gpm target model max_fails st'))
      else if fails st > max_fails then Some (Raise (EvolverError [Lit max_msg]), st)
      else Some (Return (visited st), st))"

definition monte_carlo_metropolis_criterion ::
  "nat \<Rightarrow> ('g, 'm, 'r) env \<Rightarrow> ('g, 'p, 'm) gpm \<Rightarrow> 'g \<Rightarrow> 'g \<Rightarrow> ('p \<Rightarrow> 'p \<Rightarrow> fnum) \<Rightarrow> int \<Rightarrow>
   'r \<Rightarrow> ('g exit \<times> ('g, 'r) mmc_state) option" where
  "monte_carlo_metropolis_criterion fuel E gpm source target model max_fails r =
     mmc_loop fuel E gpm target model max_fails
       \<lparr>visited = [source], rng = r, calls = [], fails = 0\<rparr>"

section \<open>MarkovChain.simulate\<close>

text \<open>
  The transition matrix is a data frame: its column names in order (\<open>list(tm)\<close>) and its
  rows by position (\<open>tm.ix[i, :]\<close>). The matrix, \<open>binary_wildtype\<close> and \<open>mutant\<close> are
  attributes set by the constructor and the base class.
\<close>

record 'g frame =
  columns :: "'g list"
  rows :: "real list list"

record ('g, 'r) markov_chain =
  tm :: "'g frame"
  binary_wildtype :: 'g
  mutant :: "'g list"
  rv_discrete_rvs :: "nat list \<Rightarrow> real list \<Rightarrow> 'r \<Rightarrow> nat \<times> 'r"

record 'g log =
  path :: "'g list"

text \<open>\<open>genotypes.index(x)\<close>: the first position of \<open>x\<close>, ValueError when there is none.\<close>

fun list_index :: "'a list \<Rightarrow> 'a \<Rightarrow> nat option" where
  "list_index [] x = None"
| "list_index (y # ys) x =
     (if y = x then Some 0 else map_option Suc (list_index ys x))"

text \<open>
  One pass through the body of the loop, from the current state, the log and the
  generator's state to the new ones.
\<close>

definition sim_step ::
  "('g, 'r) markov_chain \<Rightarrow> 'g \<times> 'g log \<times> 'r \<Rightarrow> 'g error + 'g \<times> 'g log \<times> 'r" where
  "sim_step self s =
     (case s of (StateCurr, lg, r) \<Rightarrow>
        let genotypes = columns (tm self);
            gt_indices = [0..<length genotypes]
        in case list_index genotypes StateCurr of
             None \<Rightarrow> Inl (ValueError StateCurr)
           | Some i \<Rightarrow>
               if length (rows (tm self)) \<le> i then Inl IndexError
               else
                 let pmf = rows (tm self) ! i;
                     draw = rv_discrete_rvs self gt_indices pmf r
                 in if length genotypes \<le> fst draw then Inl IndexError
                    else
                      let state_drawn = genotypes ! fst draw
                      in Inr (state_drawn, lg\<lparr>path := path lg @ [state_drawn]\<rparr>, snd draw))"

text \<open>
  The loop has no ceiling, so it runs on fuel, one unit for each pass; \<open>None\<close> is a run
  that has not reached a mutant when the fuel is spent.
\<close>

fun sim_loop ::
  "nat \<Rightarrow> ('g, 'r) markov_chain \<Rightarrow> 'g \<times> 'g log \<times> 'r \<Rightarrow> ('g error + 'g log) option" where
  "sim_loop fuel self (StateCurr, lg, r) =
     (if StateCurr \<notin> set (mutant self) then
        (case fuel of
           0 \<Rightarrow> None
         | Suc k \<Rightarrow>
             (case sim_step self (StateCurr, lg, r) of
                Inl e \<Rightarrow> Some (Inl e)
              | Inr s' \<Rightarrow> sim_loop k self s'))
      else Some (Inr lg))"

definition simulate :: "nat \<Rightarrow> ('g, 'r) markov_chain \<Rightarrow> 'r \<Rightarrow> ('g error + 'g log) option" where
  "simulate fuel self r =
     sim_loop fuel self (binary_wildtype self, \<lparr>path = [binary_wildtype self]\<rparr>, r)"

section \<open>monte\_carlo over any float arithmetic\<close>

text \<open>
  The pass of \<open>monte_carlo\<close> once more, with the arithmetic of float64 left open. Every
  operation that the pass applies to a float is a field of the record below: what
  \<open>np.nan_to_num\<close> makes of an output of the model, the division by \<open>len(neighbors) + 1\<close>,
  \<open>trans_prob.sum()\<close>, the subtraction from 1, the comparison \<open>== 1\<close>, the built-in \<open>sum\<close>
  of a slice, the multiplication by 100, the comparison \<open>>=\<close>, and the draw
  \<open>np.random.uniform(0, 100)\<close>. Nothing is assumed of them, so that what holds of this
  pass holds with the rounding of float64; the exact arithmetic of \<open>mc_step\<close> is one
  instance.
\<close>

record ('f, 'r) arith =
  nan_to_num_of :: "fnum \<Rightarrow> 'f"
  divide_by :: "'f \<Rightarrow> nat \<Rightarrow> 'f"
  array_sum :: "'f list \<Rightarrow> 'f"
  one_minus :: "'f \<Rightarrow> 'f"
  equals_one :: "'f \<Rightarrow> bool"
  builtin_sum :: "'f list \<Rightarrow> 'f"
  times_100 :: "'f \<Rightarrow> 'f"
  greater_equal :: "'f \<Rightarrow> 'f \<Rightarrow> bool"
  uniform_0_100 :: "'r \<Rightarrow> 'f \<times> 'r"

definition fixations_in :: "('f, 'r) arith \<Rightarrow> fnum list \<Rightarrow> 'f list" where
  "fixations_in A outs = map (nan_to_num_of A) outs"

definition trans_prob_in :: "('f, 'r) arith \<Rightarrow> 'g list \<Rightarrow> 'f list \<Rightarrow> 'f list" where
  "trans_prob_in A neighbors fix = map (\<lambda>x. divide_by A x (length neighbors + 1)) fix"

definition self_prob_in :: "('f, 'r) arith \<Rightarrow> 'f list \<Rightarrow> 'f" where
  "self_prob_in A tp = one_minus A (array_sum A tp)"

definition cumulative_dist_in :: "('f, 'r) arith \<Rightarrow> 'f list \<Rightarrow> 'f list" where
  "cumulative_dist_in A probs =
     map (\<lambda>i. times_100 A (builtin_sum A (take (i + 1) probs))) [0..<length probs]"

definition select_move_in :: "('f, 'r) arith \<Rightarrow> 'g list \<Rightarrow> 'f list \<Rightarrow> 'f \<Rightarrow> 'g option" where
  "select_move_in A moves cd mc_number =
     (case filter (\<lambda>(m, c). greater_equal A c mc_number) (zip moves cd) of
        [] \<Rightarrow> None
      | (m, c) # rest \<Rightarrow> Some m)"

definition mc_step_in ::
  "('f, 'r) arith \<Rightarrow> ('g, 'm, 'r) env \<Rightarrow> ('g, 'p, 'm) gpm \<Rightarrow> 'g \<Rightarrow> ('p \<Rightarrow> 'p \<Rightarrow> fnum) \<Rightarrow> bool \<Rightarrow>
   bool \<Rightarrow> ('g, 'r) mc_state \<Rightarrow> 'g exit option \<times> ('g, 'r) mc_state" where
  "mc_step_in A E gpm source model forward return_bad st =
     (let current = last (visited st) in
      case mapping_p gpm current of
        None \<Rightarrow> (Some (Raise (KeyError current)), st)
      | Some fitness0 \<Rightarrow>
          let neighbors = neighbors_of E gpm source forward current;
              moves = neighbors @ [current];
              st1 = st\<lparr>calls := calls st @ [neighbors_call source forward current]
                                 @ model_calls (mapping_p gpm) current neighbors\<rparr>
          in case model_outputs (mapping_p gpm) model fitness0 neighbors of
               Inl e \<Rightarrow> (Some (Raise e), st1)
             | Inr outs \<Rightarrow>
                 let tp = trans_prob_in A neighbors (fixations_in A outs);
                     sp = self_prob_in A tp;
                     probs = tp @ [sp]
                 in if equals_one A sp then
                      (if return_bad then (Some (Return (visited st)), st1)
                       else (Some (Raise (EvolverError [Lit stuck_msg, Str (visited st)])), st1))
                    else
                      let cd = cumulative_dist_in A probs;
                          draw = uniform_0_100 A (rng st1);
                          mc_number = fst draw;
                          st2 = st1\<lparr>rng := snd draw\<rparr>;
                          st3 = st2\<lparr>calls := calls st1 @ [RandomUniform]\<rparr>
                      in case select_move_in A moves cd mc_number of
                           None \<Rightarrow> (Some (Raise IndexError), st3)
                         | Some new \<Rightarrow>
                             (None, st3\<lparr>visited := visited st @ [new], nmoves := nmoves st + 1\<rparr>))"

function mc_loop_in ::
  "('f, 'r) arith \<Rightarrow> ('g, 'm, 'r) env \<Rightarrow> ('g, 'p, 'm) gpm \<Rightarrow> 'g \<Rightarrow> 'g \<Rightarrow> ('p \<Rightarrow> 'p \<Rightarrow> fnum) \<Rightarrow>
   int \<Rightarrow> bool \<Rightarrow> bool \<Rightarrow> ('g, 'r) mc_state \<Rightarrow> 'g exit \<times> ('g, 'r) mc_state" where
  "mc_loop_in A E gpm source target model max_moves forward return_bad st =
     (if visited st = [] then (Raise IndexError, st)
      else if last (visited st) \<noteq> target \<and> nmoves st \<le> max_moves then
        (case mc_step_in A E gpm source model forward return_bad st of
           (Some ex, st') \<Rightarrow> (ex, st')
         | (None, st') \<Rightarrow> mc_loop_in A E gpm source target model max_moves forward return_bad st')
      else if nmoves st > max_moves then (Raise (EvolverError [Lit max_msg]), st)
      else (Return (visited st), st))"
  by pat_completeness auto
termination
  by (relation "measure (\<lambda>(A, E, gpm, source, target, model, max_moves, forward, return_bad, st).
        nat (max_moves + 1 - nmoves st))")
     (auto simp: mc_step_in_def Let_def split: option.splits sum.splits if_splits)

definition monte_carlo_in ::
  "('f, 'r) arith \<Rightarrow> ('g, 'm, 'r) env \<Rightarrow> ('g, 'p, 'm) gpm \<Rightarrow> 'g \<Rightarrow> 'g \<Rightarrow> ('p \<Rightarrow> 'p \<Rightarrow> fnum) \<Rightarrow>
   int \<Rightarrow> bool \<Rightarrow> bool \<Rightarrow> 'r \<Rightarrow> 'g exit \<times> ('g, 'r) mc_state" where
  "monte_carlo_in A E gpm source target model max_moves forward return_bad r =
     mc_loop_in A E gpm source target model max_moves forward return_bad
       \<lparr>visited = [source], rng = r, calls = [], nmoves = 0\<rparr>"

text \<open>The arithmetic of \<open>mc_step\<close>: the reals, with nothing rounded.\<close>

definition exact_arith :: "('g, 'm, 'r) env \<Rightarrow> (real, 'r) arith" where
  "exact_arith E =
     \<lparr>nan_to_num_of = nan_to_num, divide_by = (\<lambda>x n. x / real n), array_sum = sum_list,
      one_minus = (\<lambda>x. 1 - x), equals_one = (\<lambda>x. x = 1), builtin_sum = sum_list,
      times_100 = (\<lambda>x. x * 100), greater_equal = (\<lambda>c m. m \<le> c),
      uniform_0_100 = random_uniform E 0 100\<rparr>"

section \<open>Notions used in the statements\<close>

text \<open>
  The neighbor probabilities that a pass computes at a genotype (\<open>trans_prob\<close>), when the
  fitness of the genotype and of each of its neighbors is in the mapping; and the condition
  of the check \<open>self_prob == 1\<close> on them.
\<close>

definition move_probs ::
  "('g, 'm, 'r) env \<Rightarrow> ('g, 'p, 'm) gpm \<Rightarrow> 'g \<Rightarrow> ('p \<Rightarrow> 'p \<Rightarrow> fnum) \<Rightarrow> bool \<Rightarrow> 'g \<Rightarrow>
   real list option" where
  "move_probs E gpm source model forward current =
     (case mapping_p gpm current of
        None \<Rightarrow> None
      | Some fitness0 \<Rightarrow>
          (case model_outputs (mapping_p gpm) model fitness0
                  (neighbors_of E gpm source forward current) of
             Inl e \<Rightarrow> None
           | Inr outs \<Rightarrow>
               Some (trans_prob (neighbors_of E gpm source forward current) (fixations outs))))"

definition stuck_at ::
  "('g, 'm, 'r) env \<Rightarrow> ('g, 'p, 'm) gpm \<Rightarrow> 'g \<Rightarrow> ('p \<Rightarrow> 'p \<Rightarrow> fnum) \<Rightarrow> bool \<Rightarrow> 'g \<Rightarrow> bool" where
  "stuck_at E gpm source model forward current =
     (case move_probs E gpm source model forward current of
        None \<Rightarrow> False
      | Some tp \<Rightarrow> self_prob tp = 1)"

text \<open>Two genotypes of the same length that differ at exactly one site.\<close>

definition differ_by_one :: "'a list \<Rightarrow> 'a list \<Rightarrow> bool" where
  "differ_by_one a b =
     (length a = length b \<and> length (filter (\<lambda>(x, y). x \<noteq> y) (zip a b)) = 1)"

text \<open>The number of positions \<open>i > 0\<close> of a trajectory with \<open>t[i] == t[i-1]\<close>.\<close>

definition duplicated_steps :: "'g list \<Rightarrow> nat" where
  "duplicated_steps t = length (filter (\<lambda>i. t ! i = t ! (i - 1)) [1..<length t])"

text \<open>An error carries a trajectory when \<open>str\<close> of it is part of its message.\<close>

fun carries_trajectory :: "'g error \<Rightarrow> 'g list \<Rightarrow> bool" where
  "carries_trajectory (EvolverError frags) t = (Str t \<in> set frags)"
| "carries_trajectory (KeyError g) t = False"
| "carries_trajectory IndexError t = False"
| "carries_trajectory (ValueError g) t = False"


section \<open>A two-site landscape\<close>

text \<open>
  The genotypes \<open>00\<close>, \<open>01\<close>, \<open>10\<close>, \<open>11\<close> with fitness 1, 1, 1 and 2, the neighbors by
  one flipped site, and a model that fixes an improvement with probability 1 and a
  neutral change with probability 1/2, and returns NaN for a loss. The generator is a
  script: a list of numbers, each draw taking the next one.
\<close>

definition ex_neighbors :: "string \<Rightarrow> unit \<Rightarrow> string list" where
  "ex_neighbors g m =
     (if g = ''00'' then [''10'', ''01'']
      else if g = ''01'' then [''11'', ''00'']
      else if g = ''10'' then [''00'', ''11'']
      else if g = ''11'' then [''01'', ''10'']
      else [])"

definition ex_forward_neighbors :: "string \<Rightarrow> string \<Rightarrow> unit \<Rightarrow> string list" where
  "ex_forward_neighbors s g m = filter (\<lambda>n. n \<noteq> s) (ex_neighbors g m)"

definition ex_uniform :: "real \<Rightarrow> real \<Rightarrow> nat list \<Rightarrow> real \<times> nat list" where
  "ex_uniform lo hi r =
     (case r of [] \<Rightarrow> (lo, []) | k # ks \<Rightarrow> (lo + (hi - lo) * real k / 10, ks))"

definition ex_choice :: "string list \<Rightarrow> nat list \<Rightarrow> string \<times> nat list" where
  "ex_choice xs r =
     (case r of
        [] \<Rightarrow> (last xs, [])
      | k # ks \<Rightarrow> (if k < length xs then xs ! k else last xs, ks))"

definition ex_rand :: "nat list \<Rightarrow> real \<times> nat list" where
  "ex_rand r = (case r of [] \<Rightarrow> (0, []) | k # ks \<Rightarrow> (real k / 10, ks))"

definition ex_env :: "(string, unit, nat list) env" where
  "ex_env = \<lparr>get_neighbors = ex_neighbors, get_forward_neighbors = ex_forward_neighbors,
             random_uniform = ex_uniform, random_choice = ex_choice, random_rand = ex_rand\<rparr>"

definition ex_gpm :: "(string, real, unit) gpm" where
  "ex_gpm = \<lparr>mapping_p = [''00'' \<mapsto> 1, ''01'' \<mapsto> 1, ''10'' \<mapsto> 1, ''11'' \<mapsto> 2], mutations = ()\<rparr>"

definition ex_model :: "real \<Rightarrow> real \<Rightarrow> fnum" where
  "ex_model f0 f1 = (if f0 < f1 then Fin 1 else if f0 = f1 then Fin (1 / 2) else NaN)"

definition ex_rvs :: "nat list \<Rightarrow> real list \<Rightarrow> nat list \<Rightarrow> nat \<times> nat list" where
  "ex_rvs xk pk r = (case r of [] \<Rightarrow> (0, []) | k # ks \<Rightarrow> (k, ks))"

definition ex_chain :: "(string, nat list) markov_chain" where
  "ex_chain = \<lparr>tm = \<lparr>columns = [''00'', ''01'', ''11''],
                     rows = [[0, 1, 0], [0, 0, 1], [0, 0, 1]]\<rparr>,
               binary_wildtype = ''00'', mutant = [''11''], rv_discrete_rvs = ex_rvs\<rparr>"

text \<open>
  An arithmetic that is exact but for \<open>1 - x\<close>, which is 1 when \<open>x\<close> is at most \<open>2^-54\<close> in
  absolute value, as float64 rounds it; a model whose every output is \<open>2^-60\<close>; and an
  enumerator that lists the neighbor \<open>01\<close> twice.
\<close>

definition absorbing_arith :: "('g, 'm, 'r) env \<Rightarrow> (real, 'r) arith" where
  "absorbing_arith E =
     (exact_arith E)\<lparr>one_minus := (\<lambda>x. if \<bar>x\<bar> \<le> 1 / 2 ^ 54 then 1 else 1 - x)\<rparr>"

definition tiny_model :: "real \<Rightarrow> real \<Rightarrow> fnum" where
  "tiny_model f0 f1 = Fin (1 / 2 ^ 60)"


section \<open>Facts about one pass and about whole runs\<close>

lemma select_move_mem: "select_move moves cd x = Some new \<Longrightarrow> new \<in> set moves"
proof -
  assume a: "select_move moves cd x = Some new"
  then obtain c rest where f: "filter (\<lambda>(m, c). x \<le> c) (zip moves cd) = (new, c) # rest"
    by (auto simp: select_move_def split: list.splits)
  have "(new, c) \<in> set (filter (\<lambda>(m, c). x \<le> c) (zip moves cd))"
    unfolding f by simp
  then have "(new, c) \<in> set (zip moves cd)" by simp
  then show ?thesis by (rule set_zip_leftD)
qed

lemma model_outputs_Inl:
  "model_outputs m model f0 ns = Inl e \<Longrightarrow> \<exists>g \<in> set ns. e = KeyError g \<and> m g = None"
  by (induction ns) (auto split: option.splits sum.splits)


lemma model_calls_all:
  "model_outputs m model f0 ns = Inr outs \<Longrightarrow> model_calls m current ns = map (ModelCall current) ns"
proof -
  assume "model_outputs m model f0 ns = Inr outs"
  then have "\<forall>n \<in> set ns. m n \<noteq> None"
    by (induction ns arbitrary: outs) (auto split: option.splits sum.splits)
  then have "takeWhile (\<lambda>n. m n \<noteq> None) ns = ns"
    by (simp add: takeWhile_eq_all_conv)
  then show ?thesis unfolding model_calls_def by (rule arg_cong)
qed


lemma mc_step_exit:
  assumes "mc_step E gpm source model forward return_bad st = (Some ex, st')"
  shows "visited st' = visited st \<and> nmoves st' = nmoves st \<and>
         (if stuck_at E gpm source model forward (last (visited st))
          then rng st' = rng st \<and>
               ex = (if return_bad then Return (visited st)
                     else Raise (EvolverError [Lit stuck_msg, Str (visited st)]))
          else (\<exists>g. ex = Raise (KeyError g)) \<or> ex = Raise IndexError)"
  using assms
  by (auto simp: mc_step_def stuck_at_def move_probs_def Let_def dest!: model_outputs_Inl
           split: option.splits sum.splits if_splits)

lemma mc_step_next:
  assumes "mc_step E gpm source model forward return_bad st = (None, st')"
  shows "nmoves st' = nmoves st + 1 \<and>
         (\<exists>new \<in> set (neighbors_of E gpm source forward (last (visited st))) \<union> {last (visited st)}.
            visited st' = visited st @ [new])"
  using assms
  by (auto simp: mc_step_def Let_def dest!: select_move_mem
           split: option.splits sum.splits if_splits)

lemma mc_step_visited:
  assumes "mc_step E gpm source model forward return_bad st = (r, st')"
  shows "visited st' = visited st \<or>
         (\<exists>new \<in> set (neighbors_of E gpm source forward (last (visited st))) \<union> {last (visited st)}.
            visited st' = visited st @ [new])"
proof (cases r)
  case None
  with assms mc_step_next [of E gpm source model forward return_bad st st'] show ?thesis by simp
next
  case (Some e)
  with assms mc_step_exit [of E gpm source model forward return_bad st e st'] show ?thesis by simp
qed

lemma mc_loop_exit:
  assumes "mc_loop E gpm source target model max_moves forward return_bad st = (ex, st')"
    and "visited st \<noteq> []"
  shows "visited st' \<noteq> [] \<and>
         (if max_moves < nmoves st' then ex = Raise (EvolverError [Lit max_msg])
          else if last (visited st') = target then ex = Return (visited st')
          else if stuck_at E gpm source model forward (last (visited st'))
          then ex = (if return_bad then Return (visited st')
                     else Raise (EvolverError [Lit stuck_msg, Str (visited st')]))
          else (\<exists>g. ex = Raise (KeyError g)) \<or> ex = Raise IndexError)"
  using assms
proof (induction E gpm source target model max_moves forward return_bad st rule: mc_loop.induct)
  case (1 E gpm source target model max_moves forward return_bad st)
  show ?case
  proof (cases "last (visited st) \<noteq> target \<and> nmoves st \<le> max_moves")
    case False
    with "1.prems" show ?thesis
      by (subst (asm) mc_loop.simps) (auto split: if_splits)
  next
    case True
    obtain r s where step: "mc_step E gpm source model forward return_bad st = (r, s)"
      by (cases "mc_step E gpm source model forward return_bad st")
    show ?thesis
    proof (cases r)
      case None
      from step None have vs: "visited s \<noteq> []"
        using mc_step_next by fastforce
      from "1.prems" True step None
      have "mc_loop E gpm source target model max_moves forward return_bad s = (ex, st')"
        by (subst (asm) mc_loop.simps) simp
      with "1.IH" [OF "1.prems"(2) True step [symmetric, unfolded None] refl] vs
      show ?thesis by simp
    next
      case (Some e)
      from "1.prems" True step Some have eq: "ex = e" "st' = s"
        by (subst (asm) mc_loop.simps, simp)+
      from mc_step_exit [OF step [unfolded Some]] True "1.prems"(2) eq
      show ?thesis by auto
    qed
  qed
qed

lemma mc_loop_invariant:
  assumes "mc_loop E gpm source target model max_moves forward return_bad st = (ex, st')"
    and "visited st \<noteq> []" and "P st"
    and step: "\<And>s r s'. visited s \<noteq> [] \<Longrightarrow> P s \<Longrightarrow>
                 mc_step E gpm source model forward return_bad s = (r, s') \<Longrightarrow> P s'"
  shows "P st'"
  using assms
proof (induction E gpm source target model max_moves forward return_bad st rule: mc_loop.induct)
  case (1 E gpm source target model max_moves forward return_bad st)
  note stp = "1.prems"(4)
  show ?case
  proof (cases "last (visited st) \<noteq> target \<and> nmoves st \<le> max_moves")
    case False
    with "1.prems"(1,2,3) show ?thesis
      by (subst (asm) mc_loop.simps) (auto split: if_splits)
  next
    case True
    obtain r s where st: "mc_step E gpm source model forward return_bad st = (r, s)"
      by (cases "mc_step E gpm source model forward return_bad st")
    have Ps: "P s" using "1.prems"(2,3) st by (rule stp)
    show ?thesis
    proof (cases r)
      case None
      from st None have vs: "visited s \<noteq> []"
        using mc_step_next by fastforce
      from "1.prems"(1,2) True st None
      have "mc_loop E gpm source target model max_moves forward return_bad s = (ex, st')"
        by (subst (asm) mc_loop.simps) simp
      from "1.IH" [OF "1.prems"(2) True st [symmetric, unfolded None] refl this vs Ps stp]
      show ?thesis .
    next
      case (Some e)
      from "1.prems"(1,2) True st Some have "st' = s"
        by (subst (asm) mc_loop.simps) simp
      with Ps show ?thesis by simp
    qed
  qed
qed

lemma mmc_step_cases:
  assumes "mmc_step E gpm model st = (r, st')"
  shows "(\<exists>g. r = Some (Raise (KeyError g)) \<and> visited st' = visited st \<and> fails st' = fails st) \<or>
         (r = None \<and>
          ((visited st' = visited st @ [fst (random_choice E (mmc_moves E gpm (last (visited st))) (rng st))]
              \<and> fails st' = fails st) \<or>
           (visited st' = visited st @ [last (visited st)] \<and> fails st' = fails st + 1)))"
  using assms
  by (auto simp: mmc_step_def Let_def split: option.splits if_splits)

lemma mmc_loop_exit:
  assumes "mmc_loop fuel E gpm target model max_fails st = Some (ex, st')"
    and "visited st \<noteq> []"
  shows "visited st' \<noteq> [] \<and>
         (if max_fails < fails st' then ex = Raise (EvolverError [Lit max_msg])
          else if last (visited st') = target then ex = Return (visited st')
          else (\<exists>g. ex = Raise (KeyError g)))"
  using assms
proof (induction fuel arbitrary: st)
  case 0
  then show ?case by (auto split: if_splits)
next
  case (Suc k)
  show ?case
  proof (cases "last (visited st) \<noteq> target \<and> fails st \<le> max_fails")
    case False
    with Suc.prems show ?thesis by (auto split: if_splits)
  next
    case True
    obtain r s where step: "mmc_step E gpm model st = (r, s)"
      by (cases "mmc_step E gpm model st")
    show ?thesis
    proof (cases r)
      case None
      from mmc_step_cases [OF step] None Suc.prems(2) have vs: "visited s \<noteq> []" by auto
      from Suc.prems True step None
      have "mmc_loop k E gpm target model max_fails s = Some (ex, st')" by simp
      from Suc.IH [OF this vs] show ?thesis .
    next
      case (Some e)
      from Suc.prems True step Some have eq: "ex = e" "st' = s" by simp_all
      from mmc_step_cases [OF step] Some True Suc.prems(2) eq show ?thesis by auto
    qed
  qed
qed

lemma mmc_loop_invariant:
  assumes "mmc_loop fuel E gpm target model max_fails st = Some (ex, st')"
    and "visited st \<noteq> []" and "P st"
    and step: "\<And>s r s'. visited s \<noteq> [] \<Longrightarrow> last (visited s) \<noteq> target \<Longrightarrow>
                 fails s \<le> max_fails \<Longrightarrow> P s \<Longrightarrow>
                 mmc_step E gpm model s = (r, s') \<Longrightarrow> P s'"
  shows "P st'"
  using assms(1-3)
proof (induction fuel arbitrary: st)
  case 0
  then show ?case by (auto split: if_splits)
next
  case (Suc k)
  show ?case
  proof (cases "last (visited st) \<noteq> target \<and> fails st \<le> max_fails")
    case False
    with Suc.prems show ?thesis by (auto split: if_splits)
  next
    case True
    obtain r s where st: "mmc_step E gpm model st = (r, s)"
      by (cases "mmc_step E gpm model st")
    from True have c: "last (visited st) \<noteq> target" "fails st \<le> max_fails" by simp_all
    have Ps: "P s" using Suc.prems(2) c Suc.prems(3) st by (rule step)
    show ?thesis
    proof (cases r)
      case None
      from mmc_step_cases [OF st] None Suc.prems(2) have vs: "visited s \<noteq> []" by auto
      from Suc.prems True st None
      have "mmc_loop k E gpm target model max_fails s = Some (ex, st')" by simp
      from Suc.IH [OF this vs Ps] show ?thesis .
    next
      case (Some e)
      from Suc.prems True st Some have "st' = s" by simp
      with Ps show ?thesis by simp
    qed
  qed
qed

lemma duplicated_steps_snoc:
  assumes "t \<noteq> []"
  shows "duplicated_steps (t @ [x]) = duplicated_steps t + (if x = last t then 1 else 0)"
proof -
  have n: "1 \<le> length t" using assms by (cases t) auto
  then have up: "[1..<length (t @ [x])] = [1..<length t] @ [length t]" by simp
  have f: "filter (\<lambda>i. (t @ [x]) ! i = (t @ [x]) ! (i - 1)) [1..<length t]
           = filter (\<lambda>i. t ! i = t ! (i - 1)) [1..<length t]"
    by (rule filter_cong) (auto simp: nth_append)
  have l: "(t @ [x]) ! (length t - 1) = last t"
    using assms n by (simp add: nth_append last_conv_nth)
  show ?thesis
    unfolding duplicated_steps_def up filter_append f
    using l by simp
qed



text \<open>
  The failure counter of the Metropolis walker exceeds a ceiling that is not negative only
  after a rejected step, which leaves the walker where it was: the max-fails error is
  never raised at the target.
\<close>

lemma mmc_max_fails_not_at_target:
  assumes "monte_carlo_metropolis_criterion fuel E gpm source target model max_fails r
             = Some (ex, st')"
    and "0 \<le> max_fails"
  shows "ex = Raise (EvolverError [Lit max_msg]) \<longleftrightarrow> max_fails < fails st'"
    and "max_fails < fails st' \<Longrightarrow> last (visited st') \<noteq> target"
proof -
  from assms(1) have run: "mmc_loop fuel E gpm target model max_fails
      \<lparr>visited = [source], rng = r, calls = [], fails = 0\<rparr> = Some (ex, st')"
    by (simp add: monte_carlo_metropolis_criterion_def)
  from mmc_loop_exit [OF run]
  show "ex = Raise (EvolverError [Lit max_msg]) \<longleftrightarrow> max_fails < fails st'"
    by (auto split: if_splits)
  have "max_fails < fails st' \<longrightarrow> last (visited st') \<noteq> target"
  proof (rule mmc_loop_invariant [OF run,
        where P = "\<lambda>s. max_fails < fails s \<longrightarrow> last (visited s) \<noteq> target"])
    show "max_fails < fails \<lparr>visited = [source], rng = r, calls = [], fails = 0\<rparr> \<longrightarrow>
        last (visited \<lparr>visited = [source], rng = r, calls = [], fails = 0\<rparr>) \<noteq> target"
      using assms(2) by simp
  next
    fix s k s'
    assume "visited s \<noteq> []" "last (visited s) \<noteq> target" "fails s \<le> max_fails"
      and "mmc_step E gpm model s = (k, s')"
    with mmc_step_cases [of E gpm model s k s']
    show "max_fails < fails s' \<longrightarrow> last (visited s') \<noteq> target" by auto
  qed simp
  then show "max_fails < fails st' \<Longrightarrow> last (visited st') \<noteq> target" by simp
qed

lemma successively_nth:
  "successively P xs \<Longrightarrow> Suc i < length xs \<Longrightarrow> P (xs ! i) (xs ! Suc i)"
proof (induction P xs arbitrary: i rule: successively.induct)
  case (3 P x y xs)
  then show ?case by (cases i) auto
qed simp_all

lemmas ex_defs = ex_env_def ex_gpm_def ex_model_def ex_neighbors_def ex_forward_neighbors_def
  ex_uniform_def ex_choice_def ex_rand_def ex_rvs_def ex_chain_def

lemmas mc_defs = monte_carlo_def mc_step_def neighbors_of_def neighbors_call_def model_calls_def
  fixations_def trans_prob_def self_prob_def cumulative_dist_def select_move_def Let_def

lemmas mmc_defs = monte_carlo_metropolis_criterion_def mmc_step_def mmc_moves_def Let_def

section \<open>The claims\<close>

lemma mc_run_1000:
  "monte_carlo ex_env ex_gpm ''00'' ''11'' ex_model 1000 False False [2, 1] =
     (Return [''00'', ''01'', ''11''],
      \<lparr>visited = [''00'', ''01'', ''11''], rng = [],
         calls = [GetNeighbors ''00'', ModelCall ''00'' ''10'', ModelCall ''00'' ''01'',
                  RandomUniform, GetNeighbors ''01'', ModelCall ''01'' ''11'',
                  ModelCall ''01'' ''00'', RandomUniform],
         nmoves = 2\<rparr>)"
  by (simp add: mc_defs ex_defs)

lemma mmc_run_reject:
  "monte_carlo_metropolis_criterion 5 ex_env ex_gpm ''00'' ''11'' ex_model 1000 [1, 7, 1, 2, 0, 2] =
     Some (Return [''00'', ''00'', ''01'', ''11''],
       \<lparr>visited = [''00'', ''00'', ''01'', ''11''], rng = [],
          calls = [GetNeighbors ''00'', RandomChoice, ModelCall ''00'' ''01'', RandomRand,
                   GetNeighbors ''00'', RandomChoice, ModelCall ''00'' ''01'', RandomRand,
                   GetNeighbors ''01'', RandomChoice, ModelCall ''01'' ''11'', RandomRand],
          fails = 1\<rparr>)"
  by (simp add: mmc_defs ex_defs)





text \<open>
  C7, as stated, fails: with \<open>source == target\<close> and a negative \<open>max_moves\<close> the check after
  the loop raises the max-moves error, since \<open>nmoves = 0\<close> exceeds the ceiling.
\<close>

theorem C7_counterexample:
  "fst (monte_carlo ex_env ex_gpm ''00'' ''00'' ex_model (- 1) False False [])
     = Raise (EvolverError [Lit max_msg])"
  by (simp add: mc_defs ex_defs)

text \<open>
  C7, amended: if \<open>source == target\<close> and the ceiling is not negative, \<open>monte_carlo\<close> and
  \<open>monte_carlo_metropolis_criterion\<close> return the one-element trajectory of the source,
  having made no call to the neighbor enumerator, the model or the random source (the
  generator's state is the one given); and if the wildtype is in the mutant set,
  \<open>simulate\<close> returns the log whose path is the wildtype alone. No pass of a loop is made:
  the result is there with no fuel at all.
\<close>

theorem C7_source_is_target:
  "(0 \<le> max_moves \<longrightarrow>
      monte_carlo E gpm s s model max_moves forward return_bad r =
        (Return [s], \<lparr>visited = [s], rng = r, calls = [], nmoves = 0\<rparr>))
   \<and> (0 \<le> max_fails \<longrightarrow>
      monte_carlo_metropolis_criterion fuel E gpm s s model max_fails r =
        Some (Return [s], \<lparr>visited = [s], rng = r, calls = [], fails = 0\<rparr>))
   \<and> (binary_wildtype self \<in> set (mutant self) \<longrightarrow>
      simulate fuel' self r' = Some (Inr \<lparr>path = [binary_wildtype self]\<rparr>))"
  by (cases fuel; cases fuel')
     (simp_all add: monte_carlo_def monte_carlo_metropolis_criterion_def simulate_def)

theorem C7_witness:
  "(0::int) \<le> 0
   \<and> monte_carlo ex_env ex_gpm ''00'' ''00'' ex_model 0 False False [2, 1] =
        (Return [''00''], \<lparr>visited = [''00''], rng = [2, 1], calls = [], nmoves = 0\<rparr>)
   \<and> monte_carlo_metropolis_criterion 0 ex_env ex_gpm ''00'' ''00'' ex_model 0 [2, 1] =
        Some (Return [''00''], \<lparr>visited = [''00''], rng = [2, 1], calls = [], fails = 0\<rparr>)
   \<and> binary_wildtype (ex_chain\<lparr>mutant := [''00'']\<rparr>) \<in> set (mutant (ex_chain\<lparr>mutant := [''00'']\<rparr>))
   \<and> simulate 0 (ex_chain\<lparr>mutant := [''00'']\<rparr>) [1, 2] = Some (Inr \<lparr>path = [''00'']\<rparr>)"
  using C7_source_is_target [of 0 ex_env ex_gpm "''00''" ex_model False False "[2, 1]" 0 0
      "ex_chain\<lparr>mutant := [''00'']\<rparr>" 0 "[1, 2]"]
  by (simp add: ex_chain_def)

lemma mc_run_0:
  "monte_carlo ex_env ex_gpm ''00'' ''11'' ex_model 0 False rb [2] =
     (Raise (EvolverError [Lit max_msg]),
      \<lparr>visited = [''00'', ''01''], rng = [],
         calls = [GetNeighbors ''00'', ModelCall ''00'' ''10'', ModelCall ''00'' ''01'',
                  RandomUniform],
         nmoves = 1\<rparr>)"
  by (simp add: mc_defs ex_defs)

lemma mc_run_stuck:
  "monte_carlo ex_env ex_gpm ''11'' ''00'' ex_model 1000 False False [] =
     (Raise (EvolverError [Lit stuck_msg, Str [''11'']]),
      \<lparr>visited = [''11''], rng = [],
         calls = [GetNeighbors ''11'', ModelCall ''11'' ''01'', ModelCall ''11'' ''10''],
         nmoves = 0\<rparr>)"
  by (simp add: mc_defs ex_defs)

lemma ex_stuck_at_11: "stuck_at ex_env ex_gpm s ex_model False ''11''"
  by (simp add: stuck_at_def move_probs_def mc_defs ex_defs)

lemma mmc_run_max_fails:
  "monte_carlo_metropolis_criterion 5 ex_env ex_gpm ''00'' ''11'' ex_model 0 [1, 7] =
     Some (Raise (EvolverError [Lit max_msg]),
       \<lparr>visited = [''00'', ''00''], rng = [],
          calls = [GetNeighbors ''00'', RandomChoice, ModelCall ''00'' ''01'', RandomRand],
          fails = 1\<rparr>)"
  by (simp add: mmc_defs ex_defs)

text \<open>
  C2, as stated, fails: on this run the target \<open>11\<close> is reached by the second move, which
  is one more than \<open>max_moves = 1\<close>, and the max-moves error is raised although the final
  visited genotype equals the target.
\<close>

theorem C2_counterexample:
  "monte_carlo ex_env ex_gpm ''00'' ''11'' ex_model 1 False False [2, 1] =
     (Raise (EvolverError [Lit max_msg]),
      \<lparr>visited = [''00'', ''01'', ''11''], rng = [],
         calls = [GetNeighbors ''00'', ModelCall ''00'' ''10'', ModelCall ''00'' ''01'',
                  RandomUniform, GetNeighbors ''01'', ModelCall ''01'' ''11'',
                  ModelCall ''01'' ''00'', RandomUniform],
         nmoves = 2\<rparr>)
   \<and> last [''00'', ''01'', ''11''] = ''11''"
  by (simp add: mc_defs ex_defs)

text \<open>
  C2, amended: \<open>monte_carlo\<close> raises its max-moves error exactly when the move counter has
  exceeded \<open>max_moves\<close> at the end of the loop, whether or not the move that exceeded it
  reached the target; \<open>monte_carlo_metropolis_criterion\<close> raises its max-fails error
  exactly when the failure counter has exceeded \<open>max_fails\<close>, which for a ceiling that is
  not negative happens only without the trajectory having reached the target. For every
  run whose final visited genotype equals the target and whose counter is within the
  ceiling, no such error is raised: the trajectory is returned.
\<close>

theorem C2_ceiling_errors:
  "(monte_carlo E gpm source target model max_moves forward return_bad r = (ex, st) \<longrightarrow>
      (ex = Raise (EvolverError [Lit max_msg])) = (max_moves < nmoves st)
    \<and> (last (visited st) = target \<and> nmoves st \<le> max_moves \<longrightarrow> ex = Return (visited st)))
   \<and> (monte_carlo_metropolis_criterion fuel E' gpm' source' target' model' max_fails r' = Some (ex', st') \<longrightarrow>
      (ex' = Raise (EvolverError [Lit max_msg])) = (max_fails < fails st')
    \<and> (0 \<le> max_fails \<longrightarrow> max_fails < fails st' \<longrightarrow> last (visited st') \<noteq> target')
    \<and> (last (visited st') = target' \<and> fails st' \<le> max_fails \<longrightarrow> ex' = Return (visited st')))"
proof (intro conjI impI)
  assume "monte_carlo E gpm source target model max_moves forward return_bad r = (ex, st)"
  then have run: "mc_loop E gpm source target model max_moves forward return_bad
      \<lparr>visited = [source], rng = r, calls = [], nmoves = 0\<rparr> = (ex, st)"
    by (simp add: monte_carlo_def)
  note e = mc_loop_exit [OF run]
  from e show "(ex = Raise (EvolverError [Lit max_msg])) = (max_moves < nmoves st)"
    by (auto split: if_splits)
  { assume "last (visited st) = target \<and> nmoves st \<le> max_moves"
    with e show "ex = Return (visited st)" by (auto split: if_splits) }
next
  assume run: "monte_carlo_metropolis_criterion fuel E' gpm' source' target' model' max_fails r'
    = Some (ex', st')"
  then have loop: "mmc_loop fuel E' gpm' target' model' max_fails
      \<lparr>visited = [source'], rng = r', calls = [], fails = 0\<rparr> = Some (ex', st')"
    by (simp add: monte_carlo_metropolis_criterion_def)
  note e = mmc_loop_exit [OF loop]
  from e show "(ex' = Raise (EvolverError [Lit max_msg])) = (max_fails < fails st')"
    by (auto split: if_splits)
  { assume "0 \<le> max_fails" and "max_fails < fails st'"
    with mmc_max_fails_not_at_target(2) [OF run]
    show "last (visited st') \<noteq> target'" by simp }
  { assume "last (visited st') = target' \<and> fails st' \<le> max_fails"
    with e show "ex' = Return (visited st')" by (auto split: if_splits) }
qed

theorem C2_witness:
  "monte_carlo ex_env ex_gpm ''00'' ''11'' ex_model 1000 False False [2, 1] =
     (Return [''00'', ''01'', ''11''],
      \<lparr>visited = [''00'', ''01'', ''11''], rng = [],
         calls = [GetNeighbors ''00'', ModelCall ''00'' ''10'', ModelCall ''00'' ''01'',
                  RandomUniform, GetNeighbors ''01'', ModelCall ''01'' ''11'',
                  ModelCall ''01'' ''00'', RandomUniform],
         nmoves = 2\<rparr>)
   \<and> last [''00'', ''01'', ''11''] = ''11'' \<and> (2::int) \<le> 1000
   \<and> monte_carlo ex_env ex_gpm ''00'' ''11'' ex_model 0 False False [2] =
     (Raise (EvolverError [Lit max_msg]),
      \<lparr>visited = [''00'', ''01''], rng = [],
         calls = [GetNeighbors ''00'', ModelCall ''00'' ''10'', ModelCall ''00'' ''01'',
                  RandomUniform],
         nmoves = 1\<rparr>)
   \<and> (0::int) < 1
   \<and> monte_carlo_metropolis_criterion 5 ex_env ex_gpm ''00'' ''11'' ex_model 0 [1, 7] =
     Some (Raise (EvolverError [Lit max_msg]),
       \<lparr>visited = [''00'', ''00''], rng = [],
          calls = [GetNeighbors ''00'', RandomChoice, ModelCall ''00'' ''01'', RandomRand],
          fails = 1\<rparr>)
   \<and> (0::int) \<le> 0 \<and> last [''00'', ''00''] \<noteq> ''11''
   \<and> monte_carlo_metropolis_criterion 5 ex_env ex_gpm ''00'' ''11'' ex_model 1000 [1, 7, 1, 2, 0, 2] =
     Some (Return [''00'', ''00'', ''01'', ''11''],
       \<lparr>visited = [''00'', ''00'', ''01'', ''11''], rng = [],
          calls = [GetNeighbors ''00'', RandomChoice, ModelCall ''00'' ''01'', RandomRand,
                   GetNeighbors ''00'', RandomChoice, ModelCall ''00'' ''01'', RandomRand,
                   GetNeighbors ''01'', RandomChoice, ModelCall ''01'' ''11'', RandomRand],
          fails = 1\<rparr>)
   \<and> last [''00'', ''00'', ''01'', ''11''] = ''11'' \<and> (1::int) \<le> 1000"
proof -
  let ?a = "\<lparr>visited = [''00'', ''01'', ''11''], rng = [] :: nat list,
         calls = [GetNeighbors ''00'', ModelCall ''00'' ''10'', ModelCall ''00'' ''01'',
                  RandomUniform, GetNeighbors ''01'', ModelCall ''01'' ''11'',
                  ModelCall ''01'' ''00'', RandomUniform],
         nmoves = 2 :: int\<rparr>"
  let ?b = "\<lparr>visited = [''00'', ''01''], rng = [] :: nat list,
         calls = [GetNeighbors ''00'', ModelCall ''00'' ''10'', ModelCall ''00'' ''01'',
                  RandomUniform],
         nmoves = 1 :: int\<rparr>"
  let ?c = "\<lparr>visited = [''00'', ''00''], rng = [] :: nat list,
          calls = [GetNeighbors ''00'', RandomChoice, ModelCall ''00'' ''01'', RandomRand],
          fails = 1 :: int\<rparr>"
  let ?d = "\<lparr>visited = [''00'', ''00'', ''01'', ''11''], rng = [] :: nat list,
          calls = [GetNeighbors ''00'', RandomChoice, ModelCall ''00'' ''01'', RandomRand,
                   GetNeighbors ''00'', RandomChoice, ModelCall ''00'' ''01'', RandomRand,
                   GetNeighbors ''01'', RandomChoice, ModelCall ''01'' ''11'', RandomRand],
          fails = 1 :: int\<rparr>"
  note x = C2_ceiling_errors [where E = ex_env and gpm = ex_gpm and source = "''00''"
      and target = "''11''" and model = ex_model and max_moves = 1000 and forward = False
      and return_bad = False and r = "[2, 1]" and ex = "Return [''00'', ''01'', ''11'']"
      and st = ?a and fuel = 5 and E' = ex_env and gpm' = ex_gpm and source' = "''00''"
      and target' = "''11''" and model' = ex_model and max_fails = 0 and r' = "[1, 7]"
      and ex' = "Raise (EvolverError [Lit max_msg])" and st' = ?c]
  note y = C2_ceiling_errors [where E = ex_env and gpm = ex_gpm and source = "''00''"
      and target = "''11''" and model = ex_model and max_moves = 0 and forward = False
      and return_bad = False and r = "[2]" and ex = "Raise (EvolverError [Lit max_msg])"
      and st = ?b and fuel = 5 and E' = ex_env and gpm' = ex_gpm and source' = "''00''"
      and target' = "''11''" and model' = ex_model and max_fails = 1000
      and r' = "[1, 7, 1, 2, 0, 2]" and ex' = "Return [''00'', ''00'', ''01'', ''11'']"
      and st' = ?d]
  from x mmc_run_max_fails have "last (visited ?c) \<noteq> ''11''" by simp
  moreover from y mc_run_0 [of False] have "(0::int) < nmoves ?b" by simp
  ultimately show ?thesis
    using mc_run_1000 mc_run_0 [of False] mmc_run_max_fails mmc_run_reject by simp
qed





lemma mc_step_in_stuck:
  assumes m: "mapping_p gpm (last (visited st)) = Some fitness0"
    and o: "model_outputs (mapping_p gpm) model fitness0
              (neighbors_of E gpm source forward (last (visited st))) = Inr outs"
    and sp: "equals_one A (self_prob_in A
              (trans_prob_in A (neighbors_of E gpm source forward (last (visited st)))
                (fixations_in A outs)))"
  shows "mc_step_in A E gpm source model forward return_bad st =
           (Some (if return_bad then Return (visited st)
                  else Raise (EvolverError [Lit stuck_msg, Str (visited st)])),
            st\<lparr>calls := calls st @ neighbors_call source forward (last (visited st))
                   # map (ModelCall (last (visited st)))
                       (neighbors_of E gpm source forward (last (visited st)))\<rparr>)"
  by (simp add: mc_step_in_def Let_def m o model_calls_all [OF o] sp)

text \<open>With the exact arithmetic, the pass and the loop are those of \<open>monte_carlo\<close>.\<close>

lemma mc_step_in_exact:
  "mc_step_in (exact_arith E) E gpm source model forward return_bad st =
     mc_step E gpm source model forward return_bad st"
  by (simp add: mc_step_in_def mc_step_def exact_arith_def fixations_in_def fixations_def
        trans_prob_in_def trans_prob_def self_prob_in_def self_prob_def
        cumulative_dist_in_def cumulative_dist_def select_move_in_def select_move_def Let_def
      split: option.splits sum.splits)

lemma mc_loop_in_exact:
  "mc_loop_in (exact_arith E) E gpm source target model max_moves forward return_bad st =
     mc_loop E gpm source target model max_moves forward return_bad st"
proof (induction E gpm source target model max_moves forward return_bad st rule: mc_loop.induct)
  case (1 E gpm source target model max_moves forward return_bad st)
  show ?case
  proof (cases "visited st \<noteq> [] \<and> last (visited st) \<noteq> target \<and> nmoves st \<le> max_moves")
    case False
    then show ?thesis
      by (subst mc_loop_in.simps, subst mc_loop.simps) auto
  next
    case True
    obtain k s where step: "mc_step E gpm source model forward return_bad st = (k, s)"
      by (cases "mc_step E gpm source model forward return_bad st")
    show ?thesis
    proof (cases k)
      case None
      from True have a: "visited st \<noteq> []"
        and b: "last (visited st) \<noteq> target \<and> nmoves st \<le> max_moves" by simp_all
      from "1.IH" [OF a b step [symmetric, unfolded None] refl]
      have "mc_loop_in (exact_arith E) E gpm source target model max_moves forward return_bad s =
          mc_loop E gpm source target model max_moves forward return_bad s" .
      with True step None show ?thesis
        by (subst mc_loop_in.simps, subst mc_loop.simps) (simp add: mc_step_in_exact)
    next
      case (Some e)
      with True step show ?thesis
        by (subst mc_loop_in.simps, subst mc_loop.simps) (simp add: mc_step_in_exact)
    qed
  qed
qed

lemma monte_carlo_in_exact:
  "monte_carlo_in (exact_arith E) E gpm source target model max_moves forward return_bad r =
     monte_carlo E gpm source target model max_moves forward return_bad r"
  by (simp only: monte_carlo_in_def monte_carlo_def mc_loop_in_exact)

lemma all_equal_replicate: "\<forall>p \<in> set xs. p = z \<Longrightarrow> xs = replicate (length xs) z"
  by (induction xs) auto

text \<open>
  C4: in any float arithmetic, at a state from which the loop makes a pass (the
  trajectory has not reached the target and the move counter is within the ceiling) and
  at which the pass computes its neighbor probabilities \<open>tp\<close>: if the computed self
  probability compares equal to 1, the run ends in that pass, with the trajectory
  visited so far when \<open>return_bad\<close> is set and with the EvolverError whose message carries
  that trajectory otherwise; no genotype is appended, no move is counted and no random
  number is drawn. Every neighbor probability being the float zero is one way for the
  computed self probability to be 1 (in an arithmetic where zeros sum to zero and
  \<open>1 - 0\<close> is 1); rounding gives others, and the statement covers them.
\<close>

theorem C4_stuck_walk_stops:
  assumes "visited st \<noteq> []" and "last (visited st) \<noteq> target" and "nmoves st \<le> max_moves"
    and "mapping_p gpm (last (visited st)) = Some fitness0"
    and "model_outputs (mapping_p gpm) model fitness0
           (neighbors_of E gpm source forward (last (visited st))) = Inr outs"
    and "tp = trans_prob_in A (neighbors_of E gpm source forward (last (visited st)))
                (fixations_in A outs)"
  shows "(equals_one A (self_prob_in A tp) \<longrightarrow>
            mc_loop_in A E gpm source target model max_moves forward return_bad st =
              (if return_bad then Return (visited st)
               else Raise (EvolverError [Lit stuck_msg, Str (visited st)]),
               st\<lparr>calls := calls st @ neighbors_call source forward (last (visited st))
                      # map (ModelCall (last (visited st)))
                          (neighbors_of E gpm source forward (last (visited st)))\<rparr>))
       \<and> carries_trajectory (EvolverError [Lit stuck_msg, Str (visited st)]) (visited st)
       \<and> ((\<forall>k. array_sum A (replicate k z) = z) \<and> equals_one A (one_minus A z) \<longrightarrow>
            (\<forall>p \<in> set tp. p = z) \<longrightarrow> equals_one A (self_prob_in A tp))"
proof (intro conjI impI)
  assume sp: "equals_one A (self_prob_in A tp)"
  show "mc_loop_in A E gpm source target model max_moves forward return_bad st =
          (if return_bad then Return (visited st)
           else Raise (EvolverError [Lit stuck_msg, Str (visited st)]),
           st\<lparr>calls := calls st @ neighbors_call source forward (last (visited st))
                  # map (ModelCall (last (visited st)))
                      (neighbors_of E gpm source forward (last (visited st)))\<rparr>)"
    by (subst mc_loop_in.simps)
       (simp add: assms(1-3) mc_step_in_stuck [OF assms(4,5) sp [unfolded assms(6)]])
next
  show "carries_trajectory (EvolverError [Lit stuck_msg, Str (visited st)]) (visited st)"
    by simp
next
  assume laws: "(\<forall>k. array_sum A (replicate k z) = z) \<and> equals_one A (one_minus A z)"
    and zero: "\<forall>p \<in> set tp. p = z"
  from all_equal_replicate [OF zero] have "array_sum A tp = array_sum A (replicate (length tp) z)"
    by simp
  with laws have "array_sum A tp = z" by simp
  with laws show "equals_one A (self_prob_in A tp)" by (simp add: self_prob_in_def)
qed

lemma ex_tiny_outputs:
  "model_outputs (mapping_p ex_gpm) tiny_model 1
     (neighbors_of ex_env ex_gpm ''00'' False
        (last (visited \<lparr>visited = [''00''], rng = [2::nat], calls = [], nmoves = 0\<rparr>)))
   = Inr [Fin (1 / 2 ^ 60), Fin (1 / 2 ^ 60)]"
  by (simp add: neighbors_of_def tiny_model_def ex_defs)

lemma ex_loss_outputs:
  "model_outputs (mapping_p ex_gpm) ex_model 2
     (neighbors_of ex_env ex_gpm ''00'' False
        (last (visited \<lparr>visited = [''11''], rng = [2::nat], calls = [], nmoves = 0\<rparr>)))
   = Inr [NaN, NaN]"
  by (simp add: neighbors_of_def ex_defs)

theorem C4_witness:
  "visited \<lparr>visited = [''00''], rng = [2::nat], calls = [], nmoves = 0\<rparr> \<noteq> []
   \<and> last [''00''] \<noteq> ''11'' \<and> (0::int) \<le> 1000
   \<and> mapping_p ex_gpm ''00'' = Some 1
   \<and> model_outputs (mapping_p ex_gpm) tiny_model 1 [''10'', ''01'']
        = Inr [Fin (1 / 2 ^ 60), Fin (1 / 2 ^ 60)]
   \<and> trans_prob_in (absorbing_arith ex_env) [''10'', ''01'']
        (fixations_in (absorbing_arith ex_env) [Fin (1 / 2 ^ 60), Fin (1 / 2 ^ 60)])
        = [1 / 2 ^ 60 / 3, 1 / 2 ^ 60 / 3]
   \<and> equals_one (absorbing_arith ex_env)
        (self_prob_in (absorbing_arith ex_env) [1 / 2 ^ 60 / 3, 1 / 2 ^ 60 / 3])
   \<and> mc_loop_in (absorbing_arith ex_env) ex_env ex_gpm ''00'' ''11'' tiny_model 1000 False False
        \<lparr>visited = [''00''], rng = [2], calls = [], nmoves = 0\<rparr> =
      (Raise (EvolverError [Lit stuck_msg, Str [''00'']]),
       \<lparr>visited = [''00''], rng = [2],
          calls = [GetNeighbors ''00'', ModelCall ''00'' ''10'', ModelCall ''00'' ''01''],
          nmoves = 0\<rparr>)
   \<and> (\<forall>k. array_sum (exact_arith ex_env) (replicate k 0) = 0)
   \<and> equals_one (exact_arith ex_env) (one_minus (exact_arith ex_env) 0)
   \<and> trans_prob_in (exact_arith ex_env) [''01'', ''10'']
        (fixations_in (exact_arith ex_env) [NaN, NaN]) = [0, 0]
   \<and> equals_one (exact_arith ex_env) (self_prob_in (exact_arith ex_env) [0, 0])"
proof -
  let ?s0 = "\<lparr>visited = [''00''], rng = [2::nat], calls = [], nmoves = 0::int\<rparr>"
  let ?s1 = "\<lparr>visited = [''11''], rng = [2::nat], calls = [], nmoves = 0::int\<rparr>"
  let ?A = "absorbing_arith ex_env"
  let ?X = "exact_arith ex_env"
  have n0: "neighbors_of ex_env ex_gpm ''00'' False (last (visited ?s0)) = [''10'', ''01'']"
    and n1: "neighbors_of ex_env ex_gpm ''00'' False (last (visited ?s1)) = [''01'', ''10'']"
    by (simp_all add: neighbors_of_def ex_defs)
  have a: "visited ?s0 \<noteq> []" "last (visited ?s0) \<noteq> ''11''" "nmoves ?s0 \<le> 1000"
    "mapping_p ex_gpm (last (visited ?s0)) = Some 1"
    and b: "visited ?s1 \<noteq> []" "last (visited ?s1) \<noteq> ''00''" "nmoves ?s1 \<le> 1000"
    "mapping_p ex_gpm (last (visited ?s1)) = Some 2"
    by (simp_all add: ex_gpm_def)
  have t0: "[1 / 2 ^ 60 / 3, 1 / 2 ^ 60 / 3] =
      trans_prob_in ?A (neighbors_of ex_env ex_gpm ''00'' False (last (visited ?s0)))
        (fixations_in ?A [Fin (1 / 2 ^ 60), Fin (1 / 2 ^ 60)])"
    unfolding n0
    by (simp add: trans_prob_in_def fixations_in_def absorbing_arith_def exact_arith_def)
  have t1: "[0, 0] =
      trans_prob_in ?X (neighbors_of ex_env ex_gpm ''00'' False (last (visited ?s1)))
        (fixations_in ?X [NaN, NaN])"
    unfolding n1 by (simp add: trans_prob_in_def fixations_in_def exact_arith_def)
  have e0: "equals_one ?A (self_prob_in ?A [1 / 2 ^ 60 / 3, 1 / 2 ^ 60 / 3])"
    by (simp add: self_prob_in_def absorbing_arith_def exact_arith_def)
  have laws: "\<forall>k. array_sum ?X (replicate k 0) = 0" "equals_one ?X (one_minus ?X 0)"
    by (simp_all add: exact_arith_def sum_list_replicate)
  note x = C4_stuck_walk_stops [OF a ex_tiny_outputs t0, where return_bad = False and z = 0]
  note y = C4_stuck_walk_stops [OF b ex_loss_outputs t1, where return_bad = False and z = 0]
  from x e0
  have "mc_loop_in ?A ex_env ex_gpm ''00'' ''11'' tiny_model 1000 False False ?s0 =
      (Raise (EvolverError [Lit stuck_msg, Str (visited ?s0)]),
       ?s0\<lparr>calls := calls ?s0 @ neighbors_call ''00'' False (last (visited ?s0))
           # map (ModelCall (last (visited ?s0)))
               (neighbors_of ex_env ex_gpm ''00'' False (last (visited ?s0)))\<rparr>)"
    by simp
  then have loop: "mc_loop_in ?A ex_env ex_gpm ''00'' ''11'' tiny_model 1000 False False ?s0 =
      (Raise (EvolverError [Lit stuck_msg, Str [''00'']]),
       \<lparr>visited = [''00''], rng = [2],
          calls = [GetNeighbors ''00'', ModelCall ''00'' ''10'', ModelCall ''00'' ''01''],
          nmoves = 0\<rparr>)"
    unfolding n0 by (simp add: neighbors_call_def)
  from y laws have e1: "equals_one ?X (self_prob_in ?X [0, 0])" by simp
  from ex_tiny_outputs [unfolded n0]
  have o: "model_outputs (mapping_p ex_gpm) tiny_model 1 [''10'', ''01'']
        = Inr [Fin (1 / 2 ^ 60), Fin (1 / 2 ^ 60)]" .
  have m: "mapping_p ex_gpm ''00'' = Some 1" by (simp add: ex_gpm_def)
  from m o t0 [unfolded n0, symmetric] e0 loop laws t1 [unfolded n1, symmetric] e1
  show ?thesis by simp
qed

text \<open>
  C8: when both enumerators return only genotypes that differ from their argument at
  exactly one site, the trajectory of every run of \<open>monte_carlo\<close> (the one returned, and
  the one reached when an error is raised) changes by exactly one site wherever two
  consecutive genotypes differ: each genotype appended is the current one or one of its
  enumerated neighbors.
\<close>

theorem C8_steps_are_adjacent:
  assumes nb: "\<forall>g m. \<forall>n \<in> set (get_neighbors E g m). differ_by_one g n"
    and fnb: "\<forall>s g m. \<forall>n \<in> set (get_forward_neighbors E s g m). differ_by_one g n"
    and run: "monte_carlo E gpm source target model max_moves forward return_bad r = (ex, st)"
  shows "(\<forall>t. ex = Return t \<longrightarrow> t = visited st)
       \<and> (\<forall>i. Suc i < length (visited st) \<longrightarrow>
             visited st ! Suc i = visited st ! i \<or>
             visited st ! Suc i \<in> set (neighbors_of E gpm source forward (visited st ! i)))
       \<and> (\<forall>i. Suc i < length (visited st) \<longrightarrow> visited st ! Suc i \<noteq> visited st ! i \<longrightarrow>
             differ_by_one (visited st ! i) (visited st ! Suc i))"
proof -
  let ?R = "\<lambda>a b. b = a \<or> b \<in> set (neighbors_of E gpm source forward a)"
  from run have loop: "mc_loop E gpm source target model max_moves forward return_bad
      \<lparr>visited = [source], rng = r, calls = [], nmoves = 0\<rparr> = (ex, st)"
    by (simp add: monte_carlo_def)
  have succ: "successively ?R (visited st)"
  proof (rule mc_loop_invariant [OF loop, where P = "\<lambda>s. successively ?R (visited s)"])
    fix s k s'
    assume ne: "visited s \<noteq> []" and inv: "successively ?R (visited s)"
      and step: "mc_step E gpm source model forward return_bad s = (k, s')"
    from mc_step_visited [OF step] show "successively ?R (visited s')"
    proof
      assume "visited s' = visited s"
      with inv show ?thesis by simp
    next
      assume "\<exists>new \<in> set (neighbors_of E gpm source forward (last (visited s)))
                \<union> {last (visited s)}. visited s' = visited s @ [new]"
      then obtain new where
        n: "new = last (visited s) \<or> new \<in> set (neighbors_of E gpm source forward (last (visited s)))"
        and v: "visited s' = visited s @ [new]" by auto
      from inv ne n show ?thesis
        unfolding v by (simp add: successively_append_iff)
    qed
  qed simp_all
  have adj: "differ_by_one a b" if "b \<in> set (neighbors_of E gpm source forward a)" for a b
    using that nb fnb by (auto simp: neighbors_of_def split: if_splits)
  have ret: "\<forall>t. ex = Return t \<longrightarrow> t = visited st"
    using mc_loop_exit [OF loop] by (auto split: if_splits)
  have step: "visited st ! Suc i = visited st ! i \<or>
      visited st ! Suc i \<in> set (neighbors_of E gpm source forward (visited st ! i))"
    if "Suc i < length (visited st)" for i
    using successively_nth [OF succ that] .
  from ret step adj show ?thesis by blast
qed

lemma ex_neighbors_adjacent: "\<forall>g m. \<forall>n \<in> set (get_neighbors ex_env g m). differ_by_one g n"
  by (auto simp: ex_env_def ex_neighbors_def differ_by_one_def split: if_splits)

lemma ex_forward_neighbors_adjacent:
  "\<forall>s g m. \<forall>n \<in> set (get_forward_neighbors ex_env s g m). differ_by_one g n"
  by (auto simp: ex_env_def ex_forward_neighbors_def ex_neighbors_def differ_by_one_def
           split: if_splits)

theorem C8_witness:
  "monte_carlo ex_env ex_gpm ''00'' ''11'' ex_model 1000 False False [2, 1] =
     (Return [''00'', ''01'', ''11''],
      \<lparr>visited = [''00'', ''01'', ''11''], rng = [],
         calls = [GetNeighbors ''00'', ModelCall ''00'' ''10'', ModelCall ''00'' ''01'',
                  RandomUniform, GetNeighbors ''01'', ModelCall ''01'' ''11'',
                  ModelCall ''01'' ''00'', RandomUniform],
         nmoves = 2\<rparr>)
   \<and> differ_by_one ''00'' ''01'' \<and> differ_by_one ''01'' ''11''"
proof -
  note c = C8_steps_are_adjacent [OF ex_neighbors_adjacent ex_forward_neighbors_adjacent mc_run_1000]
  from c have "differ_by_one ''00'' ''01''"
    by (auto dest!: spec [of _ 0])
  moreover from c have "differ_by_one ''01'' ''11''"
    by (auto dest!: spec [of _ 1])
  ultimately show ?thesis using mc_run_1000 by simp
qed

text \<open>
  C9, as stated, fails: the max-moves error of this run is raised with the fixed message
  alone, and the trajectory \<open>00, 01\<close> accumulated up to the failure is not part of it.
\<close>

theorem C9_counterexample:
  "fst (monte_carlo ex_env ex_gpm ''00'' ''11'' ex_model 0 False False [2])
     = Raise (EvolverError [Lit max_msg])
   \<and> visited (snd (monte_carlo ex_env ex_gpm ''00'' ''11'' ex_model 0 False False [2]))
     = [''00'', ''01'']
   \<and> \<not> carries_trajectory (EvolverError [Lit max_msg]) [''00'', ''01'']"
  by (simp add: mc_run_0)

text \<open>
  C9, amended: the stuck-trajectory, the max-moves and the max-fails failure each surface
  as an EvolverError, and these are the only EvolverErrors raised. The stuck-trajectory
  error carries the partial trajectory in its message; the max-moves and the max-fails
  error are raised with the fixed message, which carries no trajectory.
\<close>

theorem C9_failures_are_evolver_errors:
  "(monte_carlo E gpm source target model max_moves forward return_bad r = (ex, st) \<longrightarrow>
      (max_moves < nmoves st \<longrightarrow> ex = Raise (EvolverError [Lit max_msg]))
    \<and> (nmoves st \<le> max_moves \<and> last (visited st) \<noteq> target \<and> \<not> return_bad \<and>
        stuck_at E gpm source model forward (last (visited st)) \<longrightarrow>
          ex = Raise (EvolverError [Lit stuck_msg, Str (visited st)]) \<and>
          carries_trajectory (EvolverError [Lit stuck_msg, Str (visited st)]) (visited st))
    \<and> (\<forall>frags. ex = Raise (EvolverError frags) \<longrightarrow>
          frags = [Lit max_msg] \<or> frags = [Lit stuck_msg, Str (visited st)]))
   \<and> (monte_carlo_metropolis_criterion fuel E' gpm' source' target' model' max_fails r' = Some (ex', st') \<longrightarrow>
      (max_fails < fails st' \<longrightarrow> ex' = Raise (EvolverError [Lit max_msg]))
    \<and> (\<forall>frags. ex' = Raise (EvolverError frags) \<longrightarrow> frags = [Lit max_msg]))
   \<and> \<not> carries_trajectory (EvolverError [Lit max_msg]) t"
proof (intro conjI impI)
  assume "monte_carlo E gpm source target model max_moves forward return_bad r = (ex, st)"
  then have run: "mc_loop E gpm source target model max_moves forward return_bad
      \<lparr>visited = [source], rng = r, calls = [], nmoves = 0\<rparr> = (ex, st)"
    by (simp add: monte_carlo_def)
  note e = mc_loop_exit [OF run]
  { assume "max_moves < nmoves st"
    with e show "ex = Raise (EvolverError [Lit max_msg])" by simp }
  { assume "nmoves st \<le> max_moves \<and> last (visited st) \<noteq> target \<and> \<not> return_bad \<and>
        stuck_at E gpm source model forward (last (visited st))"
    with e show "ex = Raise (EvolverError [Lit stuck_msg, Str (visited st)])" by simp
    show "carries_trajectory (EvolverError [Lit stuck_msg, Str (visited st)]) (visited st)"
      by simp }
  show "\<forall>frags. ex = Raise (EvolverError frags) \<longrightarrow>
          frags = [Lit max_msg] \<or> frags = [Lit stuck_msg, Str (visited st)]"
    using e by (auto split: if_splits)
next
  assume "monte_carlo_metropolis_criterion fuel E' gpm' source' target' model' max_fails r'
    = Some (ex', st')"
  then have run: "mmc_loop fuel E' gpm' target' model' max_fails
      \<lparr>visited = [source'], rng = r', calls = [], fails = 0\<rparr> = Some (ex', st')"
    by (simp add: monte_carlo_metropolis_criterion_def)
  note e = mmc_loop_exit [OF run]
  { assume "max_fails < fails st'"
    with e show "ex' = Raise (EvolverError [Lit max_msg])" by simp }
  show "\<forall>frags. ex' = Raise (EvolverError frags) \<longrightarrow> frags = [Lit max_msg]"
    using e by (auto split: if_splits)
next
  show "\<not> carries_trajectory (EvolverError [Lit max_msg]) t" by simp
qed

theorem C9_witness:
  "monte_carlo ex_env ex_gpm ''00'' ''11'' ex_model 0 False False [2] =
     (Raise (EvolverError [Lit max_msg]),
      \<lparr>visited = [''00'', ''01''], rng = [],
         calls = [GetNeighbors ''00'', ModelCall ''00'' ''10'', ModelCall ''00'' ''01'',
                  RandomUniform],
         nmoves = 1\<rparr>)
   \<and> (0::int) < 1
   \<and> monte_carlo ex_env ex_gpm ''11'' ''00'' ex_model 1000 False False [] =
     (Raise (EvolverError [Lit stuck_msg, Str [''11'']]),
      \<lparr>visited = [''11''], rng = [],
         calls = [GetNeighbors ''11'', ModelCall ''11'' ''01'', ModelCall ''11'' ''10''],
         nmoves = 0\<rparr>)
   \<and> stuck_at ex_env ex_gpm ''11'' ex_model False ''11''
   \<and> carries_trajectory (EvolverError [Lit stuck_msg, Str [''11'']]) [''11'']
   \<and> monte_carlo_metropolis_criterion 5 ex_env ex_gpm ''00'' ''11'' ex_model 0 [1, 7] =
     Some (Raise (EvolverError [Lit max_msg]),
       \<lparr>visited = [''00'', ''00''], rng = [],
          calls = [GetNeighbors ''00'', RandomChoice, ModelCall ''00'' ''01'', RandomRand],
          fails = 1\<rparr>)
   \<and> \<not> carries_trajectory (EvolverError [Lit max_msg]) [''00'', ''00'']"
proof -
  let ?s0 = "\<lparr>visited = [''00'', ''01''], rng = [] :: nat list,
         calls = [GetNeighbors ''00'', ModelCall ''00'' ''10'', ModelCall ''00'' ''01'',
                  RandomUniform],
         nmoves = 1 :: int\<rparr>"
  let ?s1 = "\<lparr>visited = [''11''], rng = [] :: nat list,
         calls = [GetNeighbors ''11'', ModelCall ''11'' ''01'', ModelCall ''11'' ''10''],
         nmoves = 0 :: int\<rparr>"
  let ?s2 = "\<lparr>visited = [''00'', ''00''], rng = [] :: nat list,
          calls = [GetNeighbors ''00'', RandomChoice, ModelCall ''00'' ''01'', RandomRand],
          fails = 1 :: int\<rparr>"
  note a = C9_failures_are_evolver_errors [where E = ex_env and gpm = ex_gpm
      and source = "''00''" and target = "''11''" and model = ex_model and max_moves = 0
      and forward = False and return_bad = False and r = "[2]"
      and ex = "Raise (EvolverError [Lit max_msg])" and st = ?s0
      and fuel = 5 and E' = ex_env and gpm' = ex_gpm
      and source' = "''00''" and target' = "''11''" and model' = ex_model and max_fails = 0
      and r' = "[1, 7]" and ex' = "Raise (EvolverError [Lit max_msg])" and st' = ?s2
      and t = "[''00'', ''00'']"]
  note b = C9_failures_are_evolver_errors [where E = ex_env and gpm = ex_gpm
      and source = "''11''" and target = "''00''" and model = ex_model and max_moves = 1000
      and forward = False and return_bad = False and r = "[]"
      and ex = "Raise (EvolverError [Lit stuck_msg, Str [''11'']])" and st = ?s1
      and fuel = 5 and E' = ex_env and gpm' = ex_gpm
      and source' = "''00''" and target' = "''11''" and model' = ex_model and max_fails = 0
      and r' = "[1, 7]" and ex' = "Raise (EvolverError [Lit max_msg])" and st' = ?s2
      and t = "[''11'']"]
  from b have "carries_trajectory (EvolverError [Lit stuck_msg, Str [''11'']]) [''11'']"
    by simp
  moreover from a have "\<not> carries_trajectory (EvolverError [Lit max_msg]) [''00'', ''00'']"
    by simp
  ultimately show ?thesis
    using mc_run_0 [of False] mc_run_stuck mmc_run_max_fails ex_stuck_at_11 [of "''11''"]
    by simp
qed

lemma mmc_step_trace:
  assumes "mmc_step E gpm model st = (k, st')"
  shows "set (calls st) \<subseteq> set (calls st') \<and>
         ((visited st' = visited st \<and> fails st' = fails st) \<or>
          (\<exists>c. visited st' = visited st @ [c] \<and> fails st' = fails st \<and>
                ModelCall (last (visited st)) c \<in> set (calls st')) \<or>
          (visited st' = visited st @ [last (visited st)] \<and> fails st' = fails st + 1))"
  using assms
  by (auto simp: mmc_step_def Let_def split: option.splits if_splits)

lemma mmc_step_outcome:
  assumes "mapping_p gpm (last (visited st)) = Some fitness0"
    and "random_choice E (mmc_moves E gpm (last (visited st))) (rng st) = (proposed, r1)"
    and "mapping_p gpm proposed = Some f1"
    and "random_rand E r1 = (u, r2)"
  shows "fst (mmc_step E gpm model st) = None
       \<and> visited (snd (mmc_step E gpm model st)) =
           (if float_less u (model fitness0 f1) then visited st @ [proposed]
            else visited st @ [last (visited st)])
       \<and> fails (snd (mmc_step E gpm model st)) =
           (if float_less u (model fitness0 f1) then fails st else fails st + 1)
       \<and> rng (snd (mmc_step E gpm model st)) = r2
       \<and> calls (snd (mmc_step E gpm model st)) =
           calls st @ [GetNeighbors (last (visited st)), RandomChoice,
                       ModelCall (last (visited st)) proposed, RandomRand]"
  using assms by (simp add: mmc_step_def Let_def)

lemma mmc_run_self:
  "monte_carlo_metropolis_criterion 5 ex_env ex_gpm ''00'' ''11'' ex_model 1000 [2, 2, 1, 2, 0, 2] =
     Some (Return [''00'', ''00'', ''01'', ''11''],
       \<lparr>visited = [''00'', ''00'', ''01'', ''11''], rng = [],
          calls = [GetNeighbors ''00'', RandomChoice, ModelCall ''00'' ''00'', RandomRand,
                   GetNeighbors ''00'', RandomChoice, ModelCall ''00'' ''01'', RandomRand,
                   GetNeighbors ''01'', RandomChoice, ModelCall ''01'' ''11'', RandomRand],
          fails = 0\<rparr>)"
  by (simp add: mmc_defs ex_defs)

lemma ex_duplicated_steps: "duplicated_steps [''00'', ''00'', ''01'', ''11''] = 1"
proof -
  have "[1..<4] = [1, 2, 3::nat]" by (simp add: upt_rec)
  then show ?thesis by (simp add: duplicated_steps_def)
qed

text \<open>
  C6, as stated, fails: on this run the current genotype \<open>00\<close> is itself proposed and
  accepted, which duplicates it in the trajectory without counting a failure. The
  trajectory has one duplicated step and the failure counter ends at 0.
\<close>

theorem C6_counterexample:
  "monte_carlo_metropolis_criterion 5 ex_env ex_gpm ''00'' ''11'' ex_model 1000 [2, 2, 1, 2, 0, 2] =
     Some (Return [''00'', ''00'', ''01'', ''11''],
       \<lparr>visited = [''00'', ''00'', ''01'', ''11''], rng = [],
          calls = [GetNeighbors ''00'', RandomChoice, ModelCall ''00'' ''00'', RandomRand,
                   GetNeighbors ''00'', RandomChoice, ModelCall ''00'' ''01'', RandomRand,
                   GetNeighbors ''01'', RandomChoice, ModelCall ''01'' ''11'', RandomRand],
          fails = 0\<rparr>)
   \<and> duplicated_steps [''00'', ''00'', ''01'', ''11''] = 1
   \<and> (0::int) \<noteq> int 1"
  using mmc_run_self ex_duplicated_steps by simp

text \<open>
  C6, amended: every rejected step appends a genotype equal to the immediately preceding
  one and adds exactly 1 to the failure counter, and no other step changes the counter.
  When a run ends, the failure counter is at most the number of positions \<open>i > 0\<close> of the
  trajectory with \<open>trajectory[i] == trajectory[i-1]\<close>, and equals that number on every
  run in which the current genotype itself was never the proposal (the model was never
  called on a genotype paired with itself).
\<close>

theorem C6_fails_and_duplicated_steps:
  "(mapping_p gpm (last (visited st)) = Some fitness0 \<and>
    random_choice E (mmc_moves E gpm (last (visited st))) (rng st) = (proposed, r1) \<and>
    mapping_p gpm proposed = Some f1 \<and> random_rand E r1 = (u, r2) \<and>
    \<not> float_less u (model fitness0 f1) \<longrightarrow>
      visited (snd (mmc_step E gpm model st)) = visited st @ [last (visited st)] \<and>
      fails (snd (mmc_step E gpm model st)) = fails st + 1)
   \<and> (fails (snd (mmc_step E gpm model st)) = fails st \<or>
       fails (snd (mmc_step E gpm model st)) = fails st + 1 \<and>
       visited (snd (mmc_step E gpm model st)) = visited st @ [last (visited st)])
   \<and> (monte_carlo_metropolis_criterion fuel E gpm source target model max_fails r = Some (ex, st') \<longrightarrow>
       fails st' \<le> int (duplicated_steps (visited st')) \<and>
       ((\<forall>g. ModelCall g g \<notin> set (calls st')) \<longrightarrow>
          fails st' = int (duplicated_steps (visited st'))))"
proof (intro conjI impI)
  assume a: "mapping_p gpm (last (visited st)) = Some fitness0 \<and>
    random_choice E (mmc_moves E gpm (last (visited st))) (rng st) = (proposed, r1) \<and>
    mapping_p gpm proposed = Some f1 \<and> random_rand E r1 = (u, r2) \<and>
    \<not> float_less u (model fitness0 f1)"
  then have rej: "\<not> float_less u (model fitness0 f1)" by simp
  from a mmc_step_outcome [of gpm st fitness0 E proposed r1 f1 u r2 model]
  show "visited (snd (mmc_step E gpm model st)) = visited st @ [last (visited st)]"
    and "fails (snd (mmc_step E gpm model st)) = fails st + 1"
    by (simp_all add: rej)
next
  obtain k s where step: "mmc_step E gpm model st = (k, s)"
    by (cases "mmc_step E gpm model st")
  from mmc_step_trace [OF step]
  show "fails (snd (mmc_step E gpm model st)) = fails st \<or>
       fails (snd (mmc_step E gpm model st)) = fails st + 1 \<and>
       visited (snd (mmc_step E gpm model st)) = visited st @ [last (visited st)]"
    unfolding step by auto
next
  assume "monte_carlo_metropolis_criterion fuel E gpm source target model max_fails r
    = Some (ex, st')"
  then have run: "mmc_loop fuel E gpm target model max_fails
      \<lparr>visited = [source], rng = r, calls = [], fails = 0\<rparr> = Some (ex, st')"
    by (simp add: monte_carlo_metropolis_criterion_def)
  let ?P = "\<lambda>s. fails s \<le> int (duplicated_steps (visited s)) \<and>
      ((\<forall>g. ModelCall g g \<notin> set (calls s)) \<longrightarrow> fails s = int (duplicated_steps (visited s)))"
  have "?P st'"
  proof (rule mmc_loop_invariant [OF run, where P = ?P])
    show "?P \<lparr>visited = [source], rng = r, calls = [], fails = 0\<rparr>"
      by (simp add: duplicated_steps_def)
  next
    fix s k s'
    assume ne: "visited s \<noteq> []" and inv: "?P s"
      and step: "mmc_step E gpm model s = (k, s')"
    note t = mmc_step_trace [OF step]
    then have sub: "set (calls s) \<subseteq> set (calls s')" by simp
    from t consider
        (same) "visited s' = visited s" "fails s' = fails s"
      | (acc) c where "visited s' = visited s @ [c]" "fails s' = fails s"
          "ModelCall (last (visited s)) c \<in> set (calls s')"
      | (rej) "visited s' = visited s @ [last (visited s)]" "fails s' = fails s + 1"
      by blast
    then show "?P s'"
    proof cases
      case same
      with inv sub show ?thesis by auto
    next
      case acc
      have le: "fails s' \<le> int (duplicated_steps (visited s'))"
        using inv acc(1,2) ne by (simp add: duplicated_steps_snoc)
      have "fails s' = int (duplicated_steps (visited s'))"
        if no: "\<forall>g. ModelCall g g \<notin> set (calls s')"
      proof -
        from no acc(3) have "c \<noteq> last (visited s)" by auto
        moreover from no sub have "\<forall>g. ModelCall g g \<notin> set (calls s)" by auto
        ultimately show ?thesis
          using inv acc(1,2) ne by (simp add: duplicated_steps_snoc)
      qed
      with le show ?thesis by simp
    next
      case rej
      with inv sub ne show ?thesis by (auto simp: duplicated_steps_snoc)
    qed
  qed simp
  then show "fails st' \<le> int (duplicated_steps (visited st'))" by simp
  assume "\<forall>g. ModelCall g g \<notin> set (calls st')"
  with \<open>?P st'\<close> show "fails st' = int (duplicated_steps (visited st'))" by simp
qed

theorem C6_witness:
  "mapping_p ex_gpm (last (visited \<lparr>visited = [''00''], rng = [1, 7::nat], calls = [], fails = 0\<rparr>)) = Some 1
   \<and> random_choice ex_env (mmc_moves ex_env ex_gpm ''00'') [1, 7] = (''01'', [7])
   \<and> mapping_p ex_gpm ''01'' = Some 1
   \<and> random_rand ex_env [7] = (7 / 10, [])
   \<and> \<not> float_less (7 / 10) (ex_model 1 1)
   \<and> visited (snd (mmc_step ex_env ex_gpm ex_model
         \<lparr>visited = [''00''], rng = [1, 7], calls = [], fails = 0\<rparr>)) = [''00'', ''00'']
   \<and> fails (snd (mmc_step ex_env ex_gpm ex_model
         \<lparr>visited = [''00''], rng = [1, 7], calls = [], fails = 0\<rparr>)) = 1
   \<and> monte_carlo_metropolis_criterion 5 ex_env ex_gpm ''00'' ''11'' ex_model 1000 [1, 7, 1, 2, 0, 2] =
     Some (Return [''00'', ''00'', ''01'', ''11''],
       \<lparr>visited = [''00'', ''00'', ''01'', ''11''], rng = [],
          calls = [GetNeighbors ''00'', RandomChoice, ModelCall ''00'' ''01'', RandomRand,
                   GetNeighbors ''00'', RandomChoice, ModelCall ''00'' ''01'', RandomRand,
                   GetNeighbors ''01'', RandomChoice, ModelCall ''01'' ''11'', RandomRand],
          fails = 1\<rparr>)
   \<and> (\<forall>g. ModelCall g g \<notin> set [GetNeighbors ''00'', RandomChoice, ModelCall ''00'' ''01'',
          RandomRand, GetNeighbors ''00'', RandomChoice, ModelCall ''00'' ''01'', RandomRand,
          GetNeighbors ''01'', RandomChoice, ModelCall ''01'' ''11'', RandomRand])
   \<and> (1::int) = int (duplicated_steps [''00'', ''00'', ''01'', ''11''])"
proof -
  let ?s0 = "\<lparr>visited = [''00''], rng = [1, 7::nat], calls = [], fails = 0::int\<rparr>"
  let ?sf = "\<lparr>visited = [''00'', ''00'', ''01'', ''11''], rng = [] :: nat list,
          calls = [GetNeighbors ''00'', RandomChoice, ModelCall ''00'' ''01'', RandomRand,
                   GetNeighbors ''00'', RandomChoice, ModelCall ''00'' ''01'', RandomRand,
                   GetNeighbors ''01'', RandomChoice, ModelCall ''01'' ''11'', RandomRand],
          fails = 1::int\<rparr>"
  have h: "mapping_p ex_gpm (last (visited ?s0)) = Some 1"
    "random_choice ex_env (mmc_moves ex_env ex_gpm ''00'') [1, 7] = (''01'', [7])"
    "mapping_p ex_gpm ''01'' = Some 1"
    "random_rand ex_env [7] = (7 / 10, [])"
    "\<not> float_less (7 / 10) (ex_model 1 1)"
    by (simp_all add: mmc_moves_def ex_defs)
  have no: "\<forall>g. ModelCall g g \<notin> set (calls ?sf)" by simp
  note c = C6_fails_and_duplicated_steps [where gpm = ex_gpm and st = ?s0 and ?fitness0.0 = 1
      and E = ex_env and proposed = "''01''" and ?r1.0 = "[7]" and ?f1.0 = 1 and u = "7 / 10"
      and ?r2.0 = "[]" and model = ex_model and fuel = 5 and source = "''00''"
      and target = "''11''" and max_fails = 1000 and r = "[1, 7, 1, 2, 0, 2]"
      and ex = "Return [''00'', ''00'', ''01'', ''11'']" and st' = ?sf]
  from c h have step: "visited (snd (mmc_step ex_env ex_gpm ex_model ?s0)) = [''00'', ''00'']"
    "fails (snd (mmc_step ex_env ex_gpm ex_model ?s0)) = 1"
    by simp_all
  from c mmc_run_reject no
  have "fails ?sf = int (duplicated_steps (visited ?sf))" by blast
  then have d: "(1::int) = int (duplicated_steps [''00'', ''00'', ''01'', ''11''])" by simp
  from h step mmc_run_reject no d show ?thesis by simp
qed
















end
